theory Spec2Isabelle
  imports Complex_Main "HOL-Library.Word" "HOL-Library.Multiset"
begin

unbundle bit_operations_syntax

section \<open>Data model\<close>

text \<open>
  The classes of \<^verbatim>\<open>index.js\<close> become records with the same field names. JavaScript numbers
  that hold integers (versions, indices, satoshi values, nonces) are \<^typ>\<open>int\<close>; byte buffers
  are lists of 8-bit words; hexadecimal text fields stay strings and are decoded where the
  source decodes them.
\<close>

type_synonym byte = "8 word"
type_synonym bytes = "byte list"
type_synonym w32 = "32 word"

record Prevout =
  scriptpubkey :: string
  scriptpubkey_asm :: string
  scriptpubkey_type :: string
  "value" :: int
  scriptpubkey_address :: "string option"

record Input =
  txid :: string
  vout :: int
  prevout :: Prevout
  scriptsig :: string
  scriptsig_asm :: string
  witness :: "string list"
  is_coinbase :: bool
  sequence :: int

record Transaction =
  version :: int
  locktime :: int
  vin :: "Input list"
  vout :: "Prevout list"

record TxInfo =
  txid :: string
  wtxid :: string
  fee :: int
  weight :: nat

record BlockHeader =
  version :: int
  prev_block_hash :: string
  merkle_root :: string
  timestamp :: int
  bits :: int
  nonce :: int

text \<open>
  Errors are values. \<open>RangeError\<close> is what Node's \<^verbatim>\<open>Buffer.writeUInt16LE\<close>,
  \<^verbatim>\<open>writeUInt32LE\<close> and \<^verbatim>\<open>writeBigUInt64LE\<close> throw for a value outside the unsigned range
  of the field; \<open>TypeError\<close> is a property read on \<^verbatim>\<open>undefined\<close> or \<^verbatim>\<open>null\<close>; \<open>Error\<close> carries the
  message of an explicit \<^verbatim>\<open>throw new Error(...)\<close>.
\<close>

datatype error = RangeError | TypeError | Error string

definition bindE :: "error + 'a \<Rightarrow> ('a \<Rightarrow> error + 'b) \<Rightarrow> error + 'b" where
  "bindE m f = (case m of Inl e \<Rightarrow> Inl e | Inr x \<Rightarrow> f x)"

section \<open>The hash primitive\<close>

text \<open>
  \<^verbatim>\<open>sha\<close> is \<^verbatim>\<open>crypto.createHash("sha256")\<close>: SHA-256 as FIPS 180-4 defines it, on whole bytes.
  \<open>sha_K\<close> holds the 64 round constants (the first 32 bits of the fractional parts of the cube
  roots of the first 64 primes) and \<open>sha_H0\<close> the initial hash value (likewise from the square
  roots of the first 8 primes), both written in decimal.
\<close>

definition sha_K :: "w32 list" where
  "sha_K =
     [1116352408, 1899447441, 3049323471, 3921009573, 961987163, 1508970993,
      2453635748, 2870763221, 3624381080, 310598401, 607225278, 1426881987,
      1925078388, 2162078206, 2614888103, 3248222580, 3835390401, 4022224774,
      264347078, 604807628, 770255983, 1249150122, 1555081692, 1996064986,
      2554220882, 2821834349, 2952996808, 3210313671, 3336571891, 3584528711,
      113926993, 338241895, 666307205, 773529912, 1294757372, 1396182291,
      1695183700, 1986661051, 2177026350, 2456956037, 2730485921, 2820302411,
      3259730800, 3345764771, 3516065817, 3600352804, 4094571909, 275423344,
      430227734, 506948616, 659060556, 883997877, 958139571, 1322822218,
      1537002063, 1747873779, 1955562222, 2024104815, 2227730452, 2361852424,
      2428436474, 2756734187, 3204031479, 3329325298]"

type_synonym sha_state = "w32 \<times> w32 \<times> w32 \<times> w32 \<times> w32 \<times> w32 \<times> w32 \<times> w32"

definition sha_H0 :: sha_state where
  "sha_H0 =
     (1779033703, 3144134277, 1013904242, 2773480762,
      1359893119, 2600822924, 528734635, 1541459225)"

definition be32 :: "w32 \<Rightarrow> bytes" where
  "be32 w = [ucast (drop_bit 24 w), ucast (drop_bit 16 w), ucast (drop_bit 8 w), ucast w]"

fun be_words :: "bytes \<Rightarrow> w32 list" where
  "be_words (a # b # c # d # rest) =
     (push_bit 24 (ucast a) OR push_bit 16 (ucast b) OR push_bit 8 (ucast c) OR ucast d) # be_words rest"
| "be_words _ = []"

definition be64 :: "64 word \<Rightarrow> bytes" where
  "be64 w = map (\<lambda>i. ucast (drop_bit (8 * i) w)) [7, 6, 5, 4, 3, 2, 1, 0]"

definition sha_pad :: "bytes \<Rightarrow> bytes" where
  "sha_pad m = m @ [0x80] @ replicate ((119 - length m mod 64) mod 64) 0
     @ be64 (word_of_nat (length m) * 8)"

fun chunks64 :: "nat \<Rightarrow> bytes \<Rightarrow> bytes list" where
  "chunks64 0 bs = []"
| "chunks64 (Suc n) bs = take 64 bs # chunks64 n (drop 64 bs)"

definition ssig0 :: "w32 \<Rightarrow> w32" where
  "ssig0 x = word_rotr 7 x XOR word_rotr 18 x XOR drop_bit 3 x"
definition ssig1 :: "w32 \<Rightarrow> w32" where
  "ssig1 x = word_rotr 17 x XOR word_rotr 19 x XOR drop_bit 10 x"
definition bsig0 :: "w32 \<Rightarrow> w32" where
  "bsig0 x = word_rotr 2 x XOR word_rotr 13 x XOR word_rotr 22 x"
definition bsig1 :: "w32 \<Rightarrow> w32" where
  "bsig1 x = word_rotr 6 x XOR word_rotr 11 x XOR word_rotr 25 x"

fun sha_sched :: "nat \<Rightarrow> w32 list \<Rightarrow> w32 list" where
  "sha_sched 0 w = []"
| "sha_sched (Suc n) w =
     (let new = ssig1 (w ! 14) + w ! 9 + ssig0 (w ! 1) + w ! 0
      in new # sha_sched n (tl w @ [new]))"

definition sha_round :: "sha_state \<Rightarrow> w32 \<times> w32 \<Rightarrow> sha_state" where
  "sha_round st kw =
     (case st of (a, b, c, d, e, f, g, h) \<Rightarrow> case kw of (k, w) \<Rightarrow>
       (let t1 = h + bsig1 e + ((e AND f) XOR (NOT e AND g)) + k + w;
            t2 = bsig0 a + ((a AND b) XOR (a AND c) XOR (b AND c))
        in (t1 + t2, a, b, c, d + t1, e, f, g)))"

definition sha_add :: "sha_state \<Rightarrow> sha_state \<Rightarrow> sha_state" where
  "sha_add s t =
     (case s of (a, b, c, d, e, f, g, h) \<Rightarrow> case t of (a', b', c', d', e', f', g', h') \<Rightarrow>
       (a + a', b + b', c + c', d + d', e + e', f + f', g + g', h + h'))"

definition sha_compress :: "sha_state \<Rightarrow> bytes \<Rightarrow> sha_state" where
  "sha_compress st blk =
     (let w16 = be_words blk; w = w16 @ sha_sched 48 w16
      in sha_add st (foldl sha_round st (zip sha_K w)))"

definition sha_out :: "sha_state \<Rightarrow> bytes" where
  "sha_out st = (case st of (a, b, c, d, e, f, g, h) \<Rightarrow>
     be32 a @ be32 b @ be32 c @ be32 d @ be32 e @ be32 f @ be32 g @ be32 h)"

definition sha256 :: "bytes \<Rightarrow> bytes" where
  "sha256 m = (let p = sha_pad m in sha_out (foldl sha_compress sha_H0 (chunks64 (length p div 64) p)))"

definition sha :: "bytes \<Rightarrow> bytes" where
  "sha data = sha256 data"

section \<open>Codec\<close>

text \<open>Little-endian bytes of an integer: the \<open>k\<close> low-order bytes, lowest first.\<close>

fun le_bytes :: "nat \<Rightarrow> int \<Rightarrow> bytes" where
  "le_bytes 0 n = []"
| "le_bytes (Suc k) n = word_of_int n # le_bytes k (n div 256)"

definition iTo16b :: "int \<Rightarrow> error + bytes" where
  "iTo16b n = (if 0 \<le> n \<and> n \<le> 0xffff then Inr (le_bytes 2 n) else Inl RangeError)"

definition iTo32b :: "int \<Rightarrow> error + bytes" where
  "iTo32b n = (if 0 \<le> n \<and> n \<le> 0xffffffff then Inr (le_bytes 4 n) else Inl RangeError)"

definition ito64b :: "int \<Rightarrow> error + bytes" where
  "ito64b n = (if 0 \<le> n \<and> n \<le> 0xffffffffffffffff then Inr (le_bytes 8 n) else Inl RangeError)"

text \<open>
  \<^verbatim>\<open>Buffer.from([n])\<close> stores \<open>n\<close> reduced modulo 256 and never throws, so the first branch of
  \<^verbatim>\<open>serInt\<close> also takes every negative \<open>n\<close>.
\<close>

definition serInt :: "int \<Rightarrow> error + bytes" where
  "serInt n =
     (if n < 0xfd then Inr [word_of_int n]
      else if n \<le> 0xffff then bindE (iTo16b n) (\<lambda>b. Inr (0xfd # b))
      else if n \<le> 0xffffffff then bindE (iTo32b n) (\<lambda>b. Inr (0xfe # b))
      else bindE (ito64b n) (\<lambda>b. Inr (0xff # b)))"

definition reversebyte :: "bytes \<Rightarrow> bytes" where
  "reversebyte data = rev data"

text \<open>
  \<^verbatim>\<open>Buffer.from(s, "hex")\<close> decodes pairs of hexadecimal digits and stops at the first pair that
  is not one (or at a single trailing character); \<^verbatim>\<open>buf.toString("hex")\<close> writes two lower-case
  digits per byte.
\<close>

definition hex_val :: "char \<Rightarrow> nat option" where
  "hex_val c =
     (let n = (of_char c :: nat) in
      if 48 \<le> n \<and> n \<le> 57 then Some (n - 48)
      else if 97 \<le> n \<and> n \<le> 102 then Some (n - 87)
      else if 65 \<le> n \<and> n \<le> 70 then Some (n - 55)
      else None)"

fun from_hex :: "string \<Rightarrow> bytes" where
  "from_hex (a # b # rest) =
     (case (hex_val a, hex_val b) of
        (Some x, Some y) \<Rightarrow> word_of_nat (16 * x + y) # from_hex rest
      | _ \<Rightarrow> [])"
| "from_hex _ = []"

definition hex_digit :: "nat \<Rightarrow> char" where
  "hex_digit n = char_of (if n < 10 then 48 + n else 87 + n)"

definition to_hex :: "bytes \<Rightarrow> string" where
  "to_hex bs = concat (map (\<lambda>b. [hex_digit (unat b div 16), hex_digit (unat b mod 16)]) bs)"

section \<open>Serializer\<close>

text \<open>
  Script and id fields are strings here, so \<^verbatim>\<open>Buffer.from(..., "hex")\<close> cannot throw and the
  \<^verbatim>\<open>try\<close>/\<^verbatim>\<open>catch\<close> around the scriptSig decoding in \<^verbatim>\<open>serTransactions\<close> has no effect. The only
  errors of the serializers are the \<open>RangeError\<close>s of the fixed-width writes.
\<close>

fun chkSegwit_loop :: "Input list \<Rightarrow> bool" where
  "chkSegwit_loop [] = False"
| "chkSegwit_loop (v # vs) = (if length (witness v) > 0 then True else chkSegwit_loop vs)"

definition chkSegwit :: "Transaction \<Rightarrow> bool" where
  "chkSegwit tx = chkSegwit_loop (vin tx)"

text \<open>The two loops of \<^verbatim>\<open>serTransactions\<close>, each appending to the buffer built so far.\<close>

fun ser_vin_loop :: "bytes \<Rightarrow> Input list \<Rightarrow> error + bytes" where
  "ser_vin_loop serialdat [] = Inr serialdat"
| "ser_vin_loop serialdat (v # vs) =
     bindE (iTo32b (Input.vout v)) (\<lambda>voutB.
     let scriptsigBytes = from_hex (scriptsig v); lenScript = int (length scriptsigBytes) in
     bindE (serInt lenScript) (\<lambda>lenB.
     bindE (iTo32b (sequence v)) (\<lambda>seqB.
     ser_vin_loop
       (serialdat @ reversebyte (from_hex (Input.txid v)) @ voutB @ lenB @ scriptsigBytes @ seqB) vs)))"

fun ser_vout_loop :: "bytes \<Rightarrow> Prevout list \<Rightarrow> error + bytes" where
  "ser_vout_loop serialdat [] = Inr serialdat"
| "ser_vout_loop serialdat (v # vs) =
     bindE (ito64b (Prevout.value v)) (\<lambda>valB.
     let pubkeyB = from_hex (scriptpubkey v); pubkeyLen = int (length pubkeyB) in
     bindE (serInt pubkeyLen) (\<lambda>lenB.
     ser_vout_loop (serialdat @ valB @ lenB @ pubkeyB) vs))"

definition serTransactions :: "Transaction \<Rightarrow> error + bytes" where
  "serTransactions tx =
     bindE (iTo32b (Transaction.version tx)) (\<lambda>verB.
     bindE (serInt (int (length (vin tx)))) (\<lambda>nIn.
     bindE (ser_vin_loop (verB @ nIn) (vin tx)) (\<lambda>serialdat.
     bindE (serInt (int (length (Transaction.vout tx)))) (\<lambda>nOut.
     bindE (ser_vout_loop (serialdat @ nOut) (Transaction.vout tx)) (\<lambda>serialdat.
     bindE (iTo32b (locktime tx)) (\<lambda>lockB.
     Inr (serialdat @ lockB)))))))"

definition baseSize :: "Transaction \<Rightarrow> error + nat" where
  "baseSize tx = bindE (serTransactions tx) (\<lambda>serialized. Inr (length serialized))"

text \<open>\<^verbatim>\<open>segwitSerialize\<close> has its own copies of the input and output loops and a witness loop.\<close>

fun seg_vin_loop :: "bytes \<Rightarrow> Input list \<Rightarrow> error + bytes" where
  "seg_vin_loop serial [] = Inr serial"
| "seg_vin_loop serial (v # vs) =
     bindE (iTo32b (Input.vout v)) (\<lambda>voutB.
     let pubkeyB = from_hex (scriptsig v); scripLen = int (length pubkeyB) in
     bindE (serInt scripLen) (\<lambda>lenB.
     bindE (iTo32b (sequence v)) (\<lambda>seqB.
     seg_vin_loop
       (serial @ reversebyte (from_hex (Input.txid v)) @ voutB @ lenB @ pubkeyB @ seqB) vs)))"

fun seg_vout_loop :: "bytes \<Rightarrow> Prevout list \<Rightarrow> error + bytes" where
  "seg_vout_loop serial [] = Inr serial"
| "seg_vout_loop serial (v # vs) =
     bindE (ito64b (Prevout.value v)) (\<lambda>valB.
     let pubkeyScript = from_hex (scriptpubkey v); scriptpubkeyLen = int (length pubkeyScript) in
     bindE (serInt scriptpubkeyLen) (\<lambda>lenB.
     seg_vout_loop (serial @ valB @ lenB @ pubkeyScript) vs))"

fun wit_item_loop :: "bytes \<Rightarrow> string list \<Rightarrow> error + bytes" where
  "wit_item_loop serial [] = Inr serial"
| "wit_item_loop serial (w # ws) =
     (let wtBytes = from_hex w; witLen = int (length wtBytes) in
      bindE (serInt witLen) (\<lambda>lenB. wit_item_loop (serial @ lenB @ wtBytes) ws))"

fun wit_loop :: "bytes \<Rightarrow> Input list \<Rightarrow> error + bytes" where
  "wit_loop serial [] = Inr serial"
| "wit_loop serial (v # vs) =
     (let wtCount = int (length (witness v)) in
      bindE (serInt wtCount) (\<lambda>cntB.
      bindE (wit_item_loop (serial @ cntB) (witness v)) (\<lambda>serial'.
      wit_loop serial' vs)))"

definition segwitSerialize :: "Transaction \<Rightarrow> error + bytes" where
  "segwitSerialize tx =
     (let isSegwit = chkSegwit tx in
      bindE (iTo32b (Transaction.version tx)) (\<lambda>verB.
      let serial = (if isSegwit then verB @ [0x00, 0x01] else verB) in
      bindE (serInt (int (length (vin tx)))) (\<lambda>nIn.
      bindE (seg_vin_loop (serial @ nIn) (vin tx)) (\<lambda>serial.
      bindE (serInt (int (length (Transaction.vout tx)))) (\<lambda>nOut.
      bindE (seg_vout_loop (serial @ nOut) (Transaction.vout tx)) (\<lambda>serial.
      bindE (if isSegwit then wit_loop serial (vin tx) else Inr serial) (\<lambda>serial.
      bindE (iTo32b (locktime tx)) (\<lambda>lockB.
      Inr (serial @ lockB)))))))))"

text \<open>
  \<^verbatim>\<open>witnessSize\<close> repeats the marker, flag and witness loop of \<^verbatim>\<open>segwitSerialize\<close> on an empty
  buffer and returns the length.
\<close>

definition witnessSize :: "Transaction \<Rightarrow> error + nat" where
  "witnessSize tx =
     (if \<not> chkSegwit tx then Inr 0
      else
        let isSegwit = chkSegwit tx;
            serialized = (if isSegwit then [0x00, 0x01] else [])
        in bindE (if isSegwit then wit_loop serialized (vin tx) else Inr serialized)
             (\<lambda>serialized. Inr (length serialized)))"

text \<open>The header: four fixed-width integers and the two hash fields, hex-decoded as stored.\<close>

definition blockHeaderSerialdata :: "BlockHeader \<Rightarrow> error + bytes" where
  "blockHeaderSerialdata bh =
     bindE (iTo32b (BlockHeader.version bh)) (\<lambda>verB.
     bindE (iTo32b (timestamp bh)) (\<lambda>timeB.
     bindE (iTo32b (bits bh)) (\<lambda>bitsB.
     bindE (iTo32b (nonce bh)) (\<lambda>nonceB.
     Inr (verB @ from_hex (prev_block_hash bh) @ from_hex (merkle_root bh)
            @ timeB @ bitsB @ nonceB)))))"

lemma bindE_simps [simp]:
  "bindE (Inl e) f = Inl e"
  "bindE (Inr x) f = f x"
  by (simp_all add: bindE_def)

section \<open>Merkle engine\<close>








definition dup_last :: "'a list \<Rightarrow> 'a list" where
  "dup_last xs = (if length xs mod 2 \<noteq> 0 then xs @ [xs ! (length xs - 1)] else xs)"



lemma even_length_dup_last: "even (length (dup_last xs))"
  by (simp add: dup_last_def) presburger












section \<open>Proof-of-work engine\<close>

text \<open>
  \<^verbatim>\<open>proofOfWork\<close> mutates the nonce of the header it is given; the model returns the header
  with the result. Each round serializes the header first, so a nonce outside the unsigned
  32-bit range raises in \<^verbatim>\<open>iTo32b\<close> before the range test of the loop is reached. The recursion
  is total: the nonce only grows, and no round starts above \<open>2^32\<close>.
\<close>

definition target :: string where
  "target = ''0000ffff00000000000000000000000000000000000000000000000000000000''"

fun compArrays_loop :: "bytes \<Rightarrow> bytes \<Rightarrow> int" where
  "compArrays_loop (x # xs) (y # ys) =
     (if x < y then - 1 else if x > y then 1 else compArrays_loop xs ys)"
| "compArrays_loop _ _ = 0"

definition compArrays :: "bytes \<Rightarrow> bytes \<Rightarrow> error + int" where
  "compArrays a b =
     (if length a \<noteq> length b then Inl (Error ''Not same length'')
      else Inr (compArrays_loop a b))"

function proofOfWork :: "BlockHeader \<Rightarrow> error + bool \<times> BlockHeader" where
  "proofOfWork bh =
     (let tgtBytes = from_hex target in
      case blockHeaderSerialdata bh of
        Inl e \<Rightarrow> Inl e
      | Inr serialized \<Rightarrow>
          (let hash = reversebyte (sha (sha serialized)) in
           case compArrays hash tgtBytes of
             Inl e \<Rightarrow> Inl e
           | Inr c \<Rightarrow>
               if c = - 1 then Inr (True, bh)
               else if nonce bh < 0x0 \<or> nonce bh > 0xffffffff then Inr (False, bh)
               else proofOfWork (bh\<lparr>nonce := nonce bh + 1\<rparr>)))"
  by pat_completeness auto
termination
  by (relation "measure (\<lambda>bh. nat (0x100000000 - nonce bh))") auto

declare proofOfWork.simps [simp del]

text \<open>The header's hash, in display order, is below the target.\<close>

definition meets_target :: "BlockHeader \<Rightarrow> bool" where
  "meets_target bh =
     (case blockHeaderSerialdata bh of
        Inl e \<Rightarrow> False
      | Inr serialized \<Rightarrow>
          compArrays (reversebyte (sha (sha serialized))) (from_hex target) = Inr (- 1))"

section \<open>Selector\<close>

text \<open>
  JavaScript numbers in the selector are modelled exactly: a finite value is a rational, and
  the values that a division by zero produces (\<open>Infinity\<close>, \<open>-Infinity\<close>, \<open>NaN\<close>) are separate
  constructors. Rounding of doubles and the sign of zero are not modelled; satoshi sums and
  weights are integers far below \<open>2^53\<close>, where double arithmetic on them is exact.
\<close>

datatype jsnum = Fin rat | PInf | NInf | NaN

fun jdiv :: "jsnum \<Rightarrow> jsnum \<Rightarrow> jsnum" where
  "jdiv NaN y = NaN"
| "jdiv x NaN = NaN"
| "jdiv (Fin a) (Fin b) =
     (if b \<noteq> 0 then Fin (a / b) else if a = 0 then NaN else if a > 0 then PInf else NInf)"
| "jdiv (Fin a) y = Fin 0"
| "jdiv PInf (Fin b) = (if b \<ge> 0 then PInf else NInf)"
| "jdiv NInf (Fin b) = (if b \<ge> 0 then NInf else PInf)"
| "jdiv x y = NaN"

fun jsub :: "jsnum \<Rightarrow> jsnum \<Rightarrow> jsnum" where
  "jsub NaN y = NaN"
| "jsub x NaN = NaN"
| "jsub (Fin a) (Fin b) = Fin (a - b)"
| "jsub PInf PInf = NaN"
| "jsub NInf NInf = NaN"
| "jsub PInf y = PInf"
| "jsub NInf y = NInf"
| "jsub x PInf = NInf"
| "jsub x NInf = PInf"

fun jmax2 :: "jsnum \<Rightarrow> jsnum \<Rightarrow> jsnum" where
  "jmax2 NaN y = NaN"
| "jmax2 x NaN = NaN"
| "jmax2 PInf y = PInf"
| "jmax2 x PInf = PInf"
| "jmax2 NInf y = y"
| "jmax2 x NInf = x"
| "jmax2 (Fin a) (Fin b) = Fin (max a b)"

definition Math_max :: "jsnum list \<Rightarrow> jsnum" where
  "Math_max xs = foldl jmax2 NInf xs"

fun jpos :: "jsnum \<Rightarrow> bool" where
  "jpos (Fin a) = (a > 0)"
| "jpos PInf = True"
| "jpos x = False"

text \<open>
  \<^verbatim>\<open>Array.prototype.sort\<close> is stable, and a comparator result counts as "second argument
  first" only when it is positive (\<open>NaN\<close> counts as 0). For a comparator that orders the
  elements consistently the result is the stable sorted order, computed here by insertion
  from the right.
\<close>

fun sort_insert :: "('a \<Rightarrow> 'a \<Rightarrow> jsnum) \<Rightarrow> 'a \<Rightarrow> 'a list \<Rightarrow> 'a list" where
  "sort_insert comparefn x [] = [x]"
| "sort_insert comparefn x (y # ys) =
     (if jpos (comparefn x y) then y # sort_insert comparefn x ys else x # y # ys)"

definition array_sort :: "('a \<Rightarrow> 'a \<Rightarrow> jsnum) \<Rightarrow> 'a list \<Rightarrow> 'a list" where
  "array_sort comparefn xs = foldr (sort_insert comparefn) xs []"

text \<open>
  \<^verbatim>\<open>prioritize\<close> takes the parsed transactions in directory order. Its first loop (lines
  455 to 509) counts the entries, stops after 4200, and builds one \<^verbatim>\<open>TxInfo\<close> per transaction:
  fee, ids and weight. Then comes the ranking (lines 511 to 517) and the selection loop (lines
  518 to 529) over the five variables of \<open>selection\<close>.
\<close>

definition tx_fee :: "Transaction \<Rightarrow> int" where
  "tx_fee tx =
     (let fee = fold (\<lambda>vin fee. fee + Prevout.value (prevout vin)) (vin tx) 0
      in fold (\<lambda>vout fee. fee - Prevout.value vout) (Transaction.vout tx) fee)"

definition mkTxInfo :: "Transaction \<Rightarrow> error + TxInfo" where
  "mkTxInfo tx =
     (let fee = tx_fee tx in
      bindE (serTransactions tx) (\<lambda>serialized.
      bindE (segwitSerialize tx) (\<lambda>segSeral.
      let txID = to_hex (reversebyte (sha (sha serialized)));
          wtxID = to_hex (reversebyte (sha (sha segSeral))) in
      bindE (witnessSize tx) (\<lambda>ws.
      bindE (baseSize tx) (\<lambda>bs.
      Inr \<lparr>TxInfo.txid = txID, wtxid = wtxID, fee = fee, weight = ws + bs * 4\<rparr>)))))"

fun read_loop :: "nat \<Rightarrow> TxInfo list \<Rightarrow> Transaction list \<Rightarrow> error + TxInfo list" where
  "read_loop cnt txInfo [] = Inr txInfo"
| "read_loop cnt txInfo (file # files) =
     (let cnt = cnt + 1 in
      if cnt > 4200 then Inr txInfo
      else bindE (mkTxInfo file) (\<lambda>info. read_loop cnt (txInfo @ [info]) files))"

definition fee_per_weight :: "TxInfo \<Rightarrow> jsnum" where
  "fee_per_weight tx = jdiv (Fin (of_int (fee tx))) (Fin (of_nat (weight tx)))"

definition rank :: "TxInfo list \<Rightarrow> TxInfo list" where
  "rank txInfo =
     (if length txInfo > 0 then
        (let maxfeeperWight = Math_max (map fee_per_weight txInfo)
         in array_sort
              (\<lambda>a b. jsub (jdiv (fee_per_weight b) maxfeeperWight)
                           (jdiv (fee_per_weight a) maxfeeperWight))
              txInfo)
      else txInfo)"

record selection =
  permittingtxs :: "TxInfo list"
  permWieght :: nat
  reward :: rat
  permtxIds :: "string list"
  permittedWTxIds :: "string list"

fun select_loop :: "selection \<Rightarrow> TxInfo list \<Rightarrow> selection" where
  "select_loop st [] = st"
| "select_loop st (tx # txs) =
     select_loop
       (if permWieght st \<ge> weight tx then
          st\<lparr>permittingtxs := permittingtxs st @ [tx],
             permWieght := permWieght st - weight tx,
             permtxIds := permtxIds st @ [TxInfo.txid tx],
             permittedWTxIds := permittedWTxIds st @ [wtxid tx],
             reward := reward st + of_int (fee tx)\<rparr>
        else st)
       txs"

definition select_init :: selection where
  "select_init = \<lparr>permittingtxs = [], permWieght = 3999300, reward = 25 / 2,
                   permtxIds = [], permittedWTxIds = []\<rparr>"

definition prioritize :: "Transaction list \<Rightarrow> error + rat \<times> string list \<times> string list" where
  "prioritize files =
     bindE (read_loop 0 [] files) (\<lambda>txInfo.
     let st = select_loop select_init (rank txInfo)
     in Inr (reward st * 100000000, permtxIds st, permittedWTxIds st))"


text \<open>
  The candidates that the selection loop has accepted after running over a ranked list, and
  the invariant that ties the loop's five variables together.
\<close>

definition accepted :: "TxInfo list \<Rightarrow> TxInfo list" where
  "accepted ranked = permittingtxs (select_loop select_init ranked)"

definition sel_inv :: "selection \<Rightarrow> bool" where
  "sel_inv st \<longleftrightarrow>
     permWieght st + sum_list (map weight (permittingtxs st)) = 3999300 \<and>
     permtxIds st = map TxInfo.txid (permittingtxs st) \<and>
     permittedWTxIds st = map wtxid (permittingtxs st) \<and>
     reward st = 25 / 2 + of_int (sum_list (map fee (permittingtxs st)))"


section \<open>Concrete inputs\<close>

definition tx_legacy :: Transaction where
  "tx_legacy =
     \<lparr>Transaction.version = 1, locktime = 0,
      vin = [\<lparr>Input.txid = ''00000000000000000000000000000000000000000000000000000000000000ab'',
              Input.vout = 1,
              prevout = \<lparr>scriptpubkey = ''0014aa'', scriptpubkey_asm = '''',
                         scriptpubkey_type = ''v0_p2wpkh'', value = 2000,
                         scriptpubkey_address = None\<rparr>,
              scriptsig = ''51'', scriptsig_asm = ''OP_1'', witness = [], is_coinbase = False,
              sequence = 0xffffffff\<rparr>],
      Transaction.vout = [\<lparr>scriptpubkey = ''6a'', scriptpubkey_asm = ''OP_RETURN'',
              scriptpubkey_type = ''op_return'', value = 1000, scriptpubkey_address = None\<rparr>]\<rparr>"

definition bh_example :: BlockHeader where
  "bh_example =
     \<lparr>BlockHeader.version = 7,
      prev_block_hash = ''0100000000000000000000000000000000000000000000000000000000000000'',
      merkle_root = ''0200000000000000000000000000000000000000000000000000000000000003'',
      timestamp = 1700000000, bits = 0x1f00ffff, nonce = 0\<rparr>"

definition bh_last :: BlockHeader where
  "bh_last =
     \<lparr>BlockHeader.version = 7,
      prev_block_hash = ''0000000000000000000000000000000000000000000000000000000000000000'',
      merkle_root = ''4a5e1e4baab89f3a32518a88c31bc87f618f76673e2cc77ab2127b7afdeda33b'',
      timestamp = 1714000000, bits = 0x1f00ffff, nonce = 0xffffffff\<rparr>"

definition tx_legacy_bytes :: bytes where
  "tx_legacy_bytes =
     [1, 0, 0, 0, 1, 171, 0, 0, 0, 0, 0, 0, 0, 0, 0, 0, 0, 0, 0, 0, 0, 0, 0,
      0, 0, 0, 0, 0, 0, 0, 0, 0, 0, 0, 0, 0, 0, 1, 0, 0, 0, 1, 81, 255, 255,
      255, 255, 1, 232, 3, 0, 0, 0, 0, 0, 0, 1, 106, 0, 0, 0, 0]"

definition info_legacy :: TxInfo where
  "info_legacy =
     \<lparr>TxInfo.txid = to_hex (reversebyte (sha (sha tx_legacy_bytes))),
      wtxid = to_hex (reversebyte (sha (sha tx_legacy_bytes))),
      fee = 1000, weight = 248\<rparr>"





section \<open>Codec and serializer properties\<close>

lemma le_bytes_numeral:
  "le_bytes (numeral k) n = word_of_int n # le_bytes (pred_numeral k) (n div 256)"
  by (simp add: numeral_eq_Suc)

lemma length_le_bytes [simp]: "length (le_bytes k n) = k"
  by (induction k arbitrary: n) simp_all

lemma serInt_small: "n < 0xfd \<Longrightarrow> serInt n = Inr [word_of_int n]"
  by (simp add: serInt_def)

lemma serInt_16: "0xfd \<le> n \<Longrightarrow> n \<le> 0xffff \<Longrightarrow> serInt n = Inr (0xfd # le_bytes 2 n)"
  by (simp add: serInt_def iTo16b_def)

lemma serInt_32: "0xffff < n \<Longrightarrow> n \<le> 0xffffffff \<Longrightarrow> serInt n = Inr (0xfe # le_bytes 4 n)"
  by (simp add: serInt_def iTo32b_def)

lemma serInt_64:
  "0xffffffff < n \<Longrightarrow> n \<le> 0xffffffffffffffff \<Longrightarrow> serInt n = Inr (0xff # le_bytes 8 n)"
  by (simp add: serInt_def ito64b_def)

lemma serInt_big: "0xffffffffffffffff < n \<Longrightarrow> serInt n = Inl RangeError"
  by (simp add: serInt_def ito64b_def)

text \<open>
  C9, as the code has it: \<^verbatim>\<open>serInt\<close> does not reject a negative \<open>n\<close>; it returns the single byte
  \<open>n mod 256\<close>. For \<open>0 \<le> n < 2^64\<close> it succeeds with the documented size classes: one byte below
  \<open>0xfd\<close>, marker \<open>0xfd\<close> and 2 little-endian bytes up to \<open>0xffff\<close>, marker \<open>0xfe\<close> and 4 bytes up to
  \<open>0xffffffff\<close>, marker \<open>0xff\<close> and 8 bytes above. From \<open>2^64\<close> on the 8-byte write raises
  \<open>RangeError\<close>.
\<close>

theorem serInt_classes:
  "(n < 0 \<longrightarrow> serInt n = Inr [word_of_int n]) \<and>
   (0 \<le> n \<and> n < 0xfd \<longrightarrow> serInt n = Inr [word_of_int n]) \<and>
   (0xfd \<le> n \<and> n \<le> 0xffff \<longrightarrow> serInt n = Inr (0xfd # le_bytes 2 n)) \<and>
   (0xffff < n \<and> n \<le> 0xffffffff \<longrightarrow> serInt n = Inr (0xfe # le_bytes 4 n)) \<and>
   (0xffffffff < n \<and> n \<le> 0xffffffffffffffff \<longrightarrow> serInt n = Inr (0xff # le_bytes 8 n)) \<and>
   (0xffffffffffffffff < n \<longrightarrow> serInt n = Inl RangeError)"
  using serInt_small [of n] serInt_16 [of n] serInt_32 [of n] serInt_64 [of n] serInt_big [of n]
  by auto

theorem serInt_classes_witness:
  "serInt (- 3) = Inr [0xfd] \<and> serInt 0x20 = Inr [0x20] \<and> serInt 0x1234 = Inr [0xfd, 0x34, 0x12]
   \<and> serInt 0x12345678 = Inr [0xfe, 0x78, 0x56, 0x34, 0x12]
   \<and> serInt 0x1122334455 = Inr [0xff, 0x55, 0x44, 0x33, 0x22, 0x11, 0, 0, 0]
   \<and> serInt 0x10000000000000000 = Inl RangeError"
  using serInt_classes [of "- 3"] serInt_classes [of "0x20"] serInt_classes [of "0x1234"]
    serInt_classes [of "0x12345678"] serInt_classes [of "0x1122334455"]
    serInt_classes [of "0x10000000000000000"]
  by (simp add: le_bytes_numeral)

text \<open>
  C9, as the claim states it, fails: \<^verbatim>\<open>serInt(-1)\<close> raises nothing and returns the byte \<open>0xff\<close>.
\<close>

theorem serInt_counterexample: "serInt (- 1) = Inr [0xff]"
  by (simp add: serInt_def)

lemma ser_seg_vin_loop: "seg_vin_loop acc vs = ser_vin_loop acc vs"
  by (induction vs arbitrary: acc) (simp_all add: Let_def)

lemma ser_seg_vout_loop: "seg_vout_loop acc vs = ser_vout_loop acc vs"
  by (induction vs arbitrary: acc) (simp_all add: Let_def)

lemma chkSegwit_loop_iff: "chkSegwit_loop vs \<longleftrightarrow> (\<exists>v \<in> set vs. witness v \<noteq> [])"
  by (induction vs) auto

text \<open>
  C6: for a transaction in which no input has a non-empty witness, \<^verbatim>\<open>segwitSerialize\<close> returns
  exactly what \<^verbatim>\<open>serTransactions\<close> returns (the same bytes, or the same error): no marker and
  flag, no witness stack.
\<close>

theorem segwitSerialize_nonsegwit:
  "\<forall>v \<in> set (vin tx). witness v = [] \<Longrightarrow> segwitSerialize tx = serTransactions tx"
proof -
  assume "\<forall>v \<in> set (vin tx). witness v = []"
  then have "\<not> chkSegwit tx"
    by (simp add: chkSegwit_def chkSegwit_loop_iff)
  then show ?thesis
    by (simp add: segwitSerialize_def serTransactions_def ser_seg_vin_loop ser_seg_vout_loop)
qed

theorem segwitSerialize_nonsegwit_witness:
  "map witness (vin tx_legacy) = [[]] \<and> segwitSerialize tx_legacy = serTransactions tx_legacy"
proof -
  have w: "map witness (vin tx_legacy) = [[]]"
    by (simp add: tx_legacy_def)
  have h: "\<forall>v \<in> set (vin tx_legacy). witness v = []"
    by (simp add: tx_legacy_def)
  from w segwitSerialize_nonsegwit [OF h] show ?thesis by simp
qed

section \<open>Header serialization\<close>

text \<open>
  C3, as the code has it: for a header whose two hash fields decode to 32 bytes and whose four
  integer fields are unsigned 32-bit values, \<^verbatim>\<open>blockHeaderSerialdata\<close> returns the 80 bytes
  version(4), previous hash(32), merkle root(32), timestamp(4), bits(4), nonce(4), with the two
  hash fields in the byte order in which the header stores them: nothing is reversed.
\<close>

theorem blockHeaderSerialdata_layout:
  assumes "0 \<le> BlockHeader.version bh" "BlockHeader.version bh \<le> 0xffffffff"
    and "0 \<le> timestamp bh" "timestamp bh \<le> 0xffffffff"
    and "0 \<le> bits bh" "bits bh \<le> 0xffffffff"
    and "0 \<le> nonce bh" "nonce bh \<le> 0xffffffff"
    and "length (from_hex (prev_block_hash bh)) = 32"
    and "length (from_hex (merkle_root bh)) = 32"
  shows "\<exists>out. blockHeaderSerialdata bh = Inr out \<and> length out = 80 \<and>
     out = le_bytes 4 (BlockHeader.version bh) @ from_hex (prev_block_hash bh)
       @ from_hex (merkle_root bh) @ le_bytes 4 (timestamp bh) @ le_bytes 4 (bits bh)
       @ le_bytes 4 (nonce bh)"
  using assms by (simp add: blockHeaderSerialdata_def iTo32b_def)

lemma length_prev_example: "length (from_hex (prev_block_hash bh_example)) = 32"
  by code_simp

lemma length_merkle_example: "length (from_hex (merkle_root bh_example)) = 32"
  by code_simp

theorem blockHeaderSerialdata_layout_witness:
  "length (from_hex (prev_block_hash bh_example)) = 32 \<and>
   length (from_hex (merkle_root bh_example)) = 32 \<and>
   (\<exists>out. blockHeaderSerialdata bh_example = Inr out \<and> length out = 80 \<and>
     out = le_bytes 4 7 @ from_hex (prev_block_hash bh_example)
       @ from_hex (merkle_root bh_example) @ le_bytes 4 1700000000 @ le_bytes 4 0x1f00ffff
       @ le_bytes 4 0)"
proof -
  have v: "BlockHeader.version bh_example = 7" "timestamp bh_example = 1700000000"
    "bits bh_example = 0x1f00ffff" "nonce bh_example = 0"
    by (simp_all add: bh_example_def)
  from blockHeaderSerialdata_layout [of bh_example, OF _ _ _ _ _ _ _ _
      length_prev_example length_merkle_example]
    length_prev_example length_merkle_example
  show ?thesis by (simp add: v)
qed

text \<open>
  C3, as the claim states it, fails: the header \<open>bh_example\<close> has 32-byte hash fields, and its
  serialization is not the one with the two fields byte-reversed.
\<close>

theorem blockHeaderSerialdata_counterexample:
  "length (from_hex (prev_block_hash bh_example)) = 32 \<and>
   length (from_hex (merkle_root bh_example)) = 32 \<and>
   blockHeaderSerialdata bh_example \<noteq>
     Inr (le_bytes 4 7 @ rev (from_hex (prev_block_hash bh_example))
          @ rev (from_hex (merkle_root bh_example)) @ le_bytes 4 1700000000
          @ le_bytes 4 0x1f00ffff @ le_bytes 4 0)"
  by code_simp

section \<open>Merkle root\<close>







section \<open>Proof of work\<close>

lemma length_sha [simp]: "length (sha bs) = 32"
  by (simp add: sha_def sha256_def sha_out_def be32_def Let_def split: prod.splits)

lemma length_target [simp]: "length (from_hex target) = 32"
  by (simp add: target_def hex_val_def)

lemma blockHeaderSerialdata_error: "blockHeaderSerialdata bh = Inl e \<Longrightarrow> e = RangeError"
  by (auto simp: blockHeaderSerialdata_def iTo32b_def split: if_splits)

lemma blockHeaderSerialdata_nonce:
  "blockHeaderSerialdata bh = Inr s \<Longrightarrow> 0 \<le> nonce bh \<and> nonce bh \<le> 0xffffffff"
  by (auto simp: blockHeaderSerialdata_def iTo32b_def split: if_splits)

lemma proofOfWork_never_false: "proofOfWork bh \<noteq> Inr (False, bh')"
proof (induction bh rule: proofOfWork.induct)
  case (1 bh)
  show ?case
  proof (cases "blockHeaderSerialdata bh")
    case (Inl e)
    then show ?thesis by (simp add: proofOfWork.simps [of bh])
  next
    case (Inr s)
    note rng = blockHeaderSerialdata_nonce [OF Inr]
    obtain c where c: "compArrays (reversebyte (sha (sha s))) (from_hex target) = Inr c"
      by (simp add: compArrays_def reversebyte_def)
    show ?thesis
    proof (cases "c = - 1")
      case True
      with Inr c show ?thesis by (simp add: proofOfWork.simps [of bh])
    next
      case False
      have "proofOfWork bh = proofOfWork (bh\<lparr>nonce := nonce bh + 1\<rparr>)"
        using Inr c False rng by (simp add: proofOfWork.simps [of bh])
      moreover have "proofOfWork (bh\<lparr>nonce := nonce bh + 1\<rparr>) \<noteq> Inr (False, bh')"
        using "1.IH" [OF refl Inr refl c False] rng by simp
      ultimately show ?thesis by simp
    qed
  qed
qed

text \<open>
  C2, on the code: when no nonce from the header's own up to \<open>2^32 - 1\<close> meets the target,
  \<^verbatim>\<open>proofOfWork\<close> does not return \<^verbatim>\<open>false\<close>. It increments the nonce to \<open>2^32\<close>, and serializing
  that header raises \<open>RangeError\<close> in \<^verbatim>\<open>iTo32b\<close> before the range test is reached.
\<close>

theorem proofOfWork_exhaustion:
  assumes "0 \<le> nonce bh"
    and "\<forall>n. nonce bh \<le> n \<and> n \<le> 0xffffffff \<longrightarrow> \<not> meets_target (bh\<lparr>nonce := n\<rparr>)"
  shows "proofOfWork bh = Inl RangeError"
  using assms
proof (induction bh rule: proofOfWork.induct)
  case (1 bh)
  show ?case
  proof (cases "blockHeaderSerialdata bh")
    case (Inl e)
    then show ?thesis
      using blockHeaderSerialdata_error [OF Inl] by (simp add: proofOfWork.simps [of bh])
  next
    case (Inr s)
    note rng = blockHeaderSerialdata_nonce [OF Inr]
    obtain c where c: "compArrays (reversebyte (sha (sha s))) (from_hex target) = Inr c"
      by (simp add: compArrays_def reversebyte_def)
    have "\<not> meets_target (bh\<lparr>nonce := nonce bh\<rparr>)"
      using "1.prems"(2) rng by blast
    then have ne: "c \<noteq> - 1"
      using Inr c by (auto simp: meets_target_def)
    have step: "proofOfWork bh = proofOfWork (bh\<lparr>nonce := nonce bh + 1\<rparr>)"
      using Inr c ne rng by (simp add: proofOfWork.simps [of bh])
    have "proofOfWork (bh\<lparr>nonce := nonce bh + 1\<rparr>) = Inl RangeError"
    proof (rule "1.IH" [OF refl Inr refl c ne])
      show "\<not> (nonce bh < 0x0 \<or> 0xffffffff < nonce bh)" using rng by simp
      show "0 \<le> nonce (bh\<lparr>nonce := nonce bh + 1\<rparr>)" using rng by simp
      show "\<forall>n. nonce (bh\<lparr>nonce := nonce bh + 1\<rparr>) \<le> n \<and> n \<le> 0xffffffff \<longrightarrow>
                \<not> meets_target (bh\<lparr>nonce := nonce bh + 1\<rparr>\<lparr>nonce := n\<rparr>)"
        using "1.prems"(2) by simp
    qed
    with step show ?thesis by simp
  qed
qed

lemma not_meets_last: "\<not> meets_target bh_last"
  by code_simp

theorem proofOfWork_exhaustion_witness:
  "0 \<le> nonce bh_last \<and> \<not> meets_target bh_last \<and> proofOfWork bh_last = Inl RangeError"
proof -
  have n: "nonce bh_last = 0xffffffff" by (simp add: bh_last_def)
  have h: "\<forall>n. nonce bh_last \<le> n \<and> n \<le> 0xffffffff \<longrightarrow> \<not> meets_target (bh_last\<lparr>nonce := n\<rparr>)"
  proof (intro allI impI)
    fix k assume "nonce bh_last \<le> k \<and> k \<le> 0xffffffff"
    with n have "k = nonce bh_last" by simp
    then show "\<not> meets_target (bh_last\<lparr>nonce := k\<rparr>)" using not_meets_last by simp
  qed
  have z: "0 \<le> nonce bh_last" by (simp add: n)
  from proofOfWork_exhaustion [OF z h] z not_meets_last show ?thesis by simp
qed

section \<open>Selection\<close>

lemma read_loop_take:
  "cnt \<le> 4200 \<Longrightarrow> read_loop cnt acc files = read_loop cnt acc (take (4200 - cnt) files)"
proof (induction files arbitrary: cnt acc)
  case Nil
  then show ?case by simp
next
  case (Cons f fs)
  show ?case
  proof (cases "cnt = 4200")
    case True
    then show ?thesis by simp
  next
    case False
    with Cons.prems have lt: "cnt < 4200" by simp
    then obtain k where k: "4200 - cnt = Suc k" by (cases "4200 - cnt") simp_all
    then have k': "4200 - (cnt + 1) = k" by simp
    have "\<And>info. read_loop (cnt + 1) (acc @ [info]) fs = read_loop (cnt + 1) (acc @ [info]) (take k fs)"
      using Cons.IH [of "cnt + 1"] lt k' by simp
    then show ?thesis using lt k by (simp add: Let_def)
  qed
qed

text \<open>
  C10: \<^verbatim>\<open>prioritize\<close> reads at most the first 4200 entries: its result on any input is its result
  on the first 4200 entries alone, so a later entry takes no part in fees, weights, ranking or
  selection, and cannot raise an error either.
\<close>

theorem prioritize_first_4200: "prioritize files = prioritize (take 4200 files)"
  using read_loop_take [of 0 "[]" files] by (simp add: prioritize_def)

subsection \<open>Ranking\<close>













subsection \<open>Greedy acceptance\<close>

lemma sel_inv_init: "sel_inv select_init"
  by (simp add: sel_inv_def select_init_def)

lemma sel_inv_step:
  "sel_inv st \<Longrightarrow> weight tx \<le> permWieght st \<Longrightarrow>
   sel_inv (st\<lparr>permittingtxs := permittingtxs st @ [tx],
               permWieght := permWieght st - weight tx,
               permtxIds := permtxIds st @ [TxInfo.txid tx],
               permittedWTxIds := permittedWTxIds st @ [wtxid tx],
               reward := reward st + of_int (fee tx)\<rparr>)"
  by (simp add: sel_inv_def)

lemma sel_inv_select_loop: "sel_inv st \<Longrightarrow> sel_inv (select_loop st txs)"
  by (induction txs arbitrary: st) (simp_all add: sel_inv_step)





lemma prioritize_accepted:
  assumes "read_loop 0 [] files = Inr txInfo"
  shows "prioritize files =
           Inr ((25 / 2 + of_int (sum_list (map fee (accepted (rank txInfo))))) * 100000000,
                map TxInfo.txid (accepted (rank txInfo)), map wtxid (accepted (rank txInfo)))"
proof -
  have "sel_inv (select_loop select_init (rank txInfo))"
    by (rule sel_inv_select_loop [OF sel_inv_init])
  then show ?thesis
    using assms by (simp add: prioritize_def sel_inv_def accepted_def Let_def)
qed




lemma ser_legacy: "serTransactions tx_legacy = Inr tx_legacy_bytes"
  by code_simp

lemma seg_legacy: "segwitSerialize tx_legacy = Inr tx_legacy_bytes"
  by code_simp

lemma wit_legacy: "witnessSize tx_legacy = Inr 0"
  by code_simp




lemma length_legacy_bytes: "length tx_legacy_bytes = 62"
  by (simp add: tx_legacy_bytes_def)

lemma mkTxInfo_legacy: "mkTxInfo tx_legacy = Inr info_legacy"
proof -
  have "tx_fee tx_legacy = 1000" by (simp add: tx_fee_def tx_legacy_def)
  then show ?thesis
    by (simp add: mkTxInfo_def ser_legacy seg_legacy wit_legacy baseSize_def length_legacy_bytes
        info_legacy_def)
qed


lemma rank_single: "rank [tx] = [tx]"
  by (simp add: rank_def array_sort_def)

lemma accepted_single: "weight tx \<le> 3999300 \<Longrightarrow> accepted [tx] = [tx]"
  by (simp add: accepted_def select_init_def)

lemma read_loop_single: "mkTxInfo tx = Inr info \<Longrightarrow> read_loop 0 [] [tx] = Inr [info]"
  by simp


text \<open>
  C1, on the code: the transaction \<open>tx_legacy\<close> pays a fee of 1000 satoshis, and \<^verbatim>\<open>prioritize\<close> on
  it alone returns \<open>(12.5 + 1000) * 100000000 = 101250000000\<close> as its first component, not the
  subsidy plus the fee in satoshis, \<open>1250000000 + 1000\<close>.
\<close>

theorem prioritize_reward_units:
  "tx_fee tx_legacy = 1000 \<and>
   prioritize [tx_legacy] = Inr (101250000000, [TxInfo.txid info_legacy], [wtxid info_legacy])"
proof -
  have f: "tx_fee tx_legacy = 1000" by (simp add: tx_fee_def tx_legacy_def)
  have a: "accepted [info_legacy] = [info_legacy]"
    by (rule accepted_single) (simp add: info_legacy_def)
  have "prioritize [tx_legacy] = Inr (101250000000, [TxInfo.txid info_legacy], [wtxid info_legacy])"
    using prioritize_accepted [OF read_loop_single [OF mkTxInfo_legacy]]
    by (simp add: rank_single a) (simp add: info_legacy_def)
  with f show ?thesis by simp
qed

subsection \<open>Fees are not checked\<close>








end
